theory Spec2Isabelle
  imports Complex_Main
begin

section \<open>Python values, exceptions and dictionaries\<close>

text \<open>
  The scraper is a Python class working on dictionaries whose values are dynamically
  typed. Values are modelled by one datatype, exceptions by a second one, and a
  computation that may raise returns \<open>py_exception + 'a\<close> (\<open>Inl\<close> is the raised
  exception). Only subclasses of \<open>Exception\<close> are modelled: they are what the
  handlers of the source (\<open>except Exception\<close>) catch. Floats are idealised as reals;
  no theorem below depends on floating-point rounding.
\<close>

datatype py_exception =
  AttributeError | KeyError | IndexError | TypeError | JSONDecodeError | ExternalError

datatype pyval =
  PNone
  | PBool bool
  | PInt int
  | PFloat real
  | PStr string
  | PList "pyval list"
  | PDict "(string \<times> pyval) list"

text \<open>
  A dictionary that the program itself reads and writes by key (a metadata record, an
  article) is a map from keys to values; a dictionary nested inside a value is an
  association list read with \<open>map_of\<close>.
\<close>

type_synonym pydict = "string \<rightharpoonup> pyval"

text \<open>Truth value of an object, as tested by \<open>if x:\<close>.\<close>

fun py_truthy :: "pyval \<Rightarrow> bool" where
  "py_truthy PNone = False"
| "py_truthy (PBool b) = b"
| "py_truthy (PInt i) = (i \<noteq> 0)"
| "py_truthy (PFloat x) = (x \<noteq> 0)"
| "py_truthy (PStr s) = (s \<noteq> [])"
| "py_truthy (PList xs) = (xs \<noteq> [])"
| "py_truthy (PDict d) = (d \<noteq> [])"

text \<open>\<open>v[0]\<close>: the first element of a list or string; any key of a JSON object is a
  string, so the integer key is missing there; other values are not subscriptable.\<close>

fun py_index0 :: "pyval \<Rightarrow> py_exception + pyval" where
  "py_index0 (PList []) = Inl IndexError"
| "py_index0 (PList (x # xs)) = Inr x"
| "py_index0 (PStr []) = Inl IndexError"
| "py_index0 (PStr (c # cs)) = Inr (PStr [c])"
| "py_index0 (PDict d) = Inl KeyError"
| "py_index0 v = Inl TypeError"

text \<open>\<open>v["k"]\<close> with a string key.\<close>

fun py_getitem :: "pyval \<Rightarrow> string \<Rightarrow> py_exception + pyval" where
  "py_getitem (PDict d) k = (case map_of d k of None \<Rightarrow> Inl KeyError | Some v \<Rightarrow> Inr v)"
| "py_getitem v k = Inl TypeError"

text \<open>\<open>xs[0]\<close> on a list built by the program.\<close>

fun list_index0 :: "'a list \<Rightarrow> py_exception + 'a" where
  "list_index0 [] = Inl IndexError"
| "list_index0 (x # xs) = Inr x"

text \<open>\<open>s.startswith(p)\<close> and \<open>s.split(sep)\<close> for a one-character separator: the
  segments between the separators, always at least one segment.\<close>

definition startswith :: "string \<Rightarrow> string \<Rightarrow> bool" where
  "startswith s p = (take (length p) s = p)"

fun split_on :: "char \<Rightarrow> string \<Rightarrow> string list" where
  "split_on sep [] = [[]]"
| "split_on sep (c # cs) =
     (if c = sep then [] # split_on sep cs
      else (case split_on sep cs of
              [] \<Rightarrow> [[c]]
            | seg # segs \<Rightarrow> (c # seg) # segs))"

section \<open>The migration routine\<close>

text \<open>
  \<open>json.loads\<close> belongs to the standard library; it is a parameter \<open>loads\<close> of the
  model, returning the decoded value or raising. The body of the \<open>try\<close> block of
  \<open>migrate_categories\<close> for one metadata record: every assignment to
  \<open>metadata["categories"]\<close> is the last step of its branch, so a record is
  unmodified when the block raises.
\<close>

definition migrate_try :: "(string \<Rightarrow> py_exception + pyval) \<Rightarrow> pydict \<Rightarrow> py_exception + pydict" where
  "migrate_try loads metadata =
     (let categories = (case metadata ''categories'' of None \<Rightarrow> PStr [] | Some v \<Rightarrow> v) in
      case categories of
        PStr s \<Rightarrow>
          if startswith s ''['' then
            (case loads s of
               Inl e \<Rightarrow> Inl e
             | Inr category_list \<Rightarrow>
                 if py_truthy category_list then
                   (case py_index0 category_list of
                      Inl e \<Rightarrow> Inl e
                    | Inr first \<Rightarrow>
                        (case py_getitem first ''category'' of
                           Inl e \<Rightarrow> Inl e
                         | Inr c \<Rightarrow> Inr (metadata(''categories'' \<mapsto> c))))
                 else Inr (metadata(''categories'' \<mapsto> PStr ''general'')))
          else if CHR '','' \<in> set s then
            (case list_index0 (split_on CHR '','' s) of
               Inl e \<Rightarrow> Inl e
             | Inr seg \<Rightarrow> Inr (metadata(''categories'' \<mapsto> PStr seg)))
          else if s = [] then Inr (metadata(''categories'' \<mapsto> PStr ''general''))
          else Inr metadata
      | _ \<Rightarrow> Inl AttributeError)"

text \<open>One iteration of the loop: the \<open>try\<close> block, and the handler that forces the
  category to \<open>"general"\<close>. Both paths append the record to \<open>updated_metadatas\<close>.\<close>

definition migrate_metadata :: "(string \<Rightarrow> py_exception + pyval) \<Rightarrow> pydict \<Rightarrow> pydict" where
  "migrate_metadata loads metadata =
     (case migrate_try loads metadata of
        Inr m \<Rightarrow> m
      | Inl e \<Rightarrow> metadata(''categories'' \<mapsto> PStr ''general''))"

fun migrate_loop :: "(string \<Rightarrow> py_exception + pyval) \<Rightarrow> pydict list \<Rightarrow> pydict list \<Rightarrow> pydict list" where
  "migrate_loop loads [] updated_metadatas = updated_metadatas"
| "migrate_loop loads (metadata # rest) updated_metadatas =
     migrate_loop loads rest (updated_metadatas @ [migrate_metadata loads metadata])"

text \<open>
  The collection of the external vector store, as far as the migration sees it: the
  stored records in order, each an id with its metadata. \<open>get\<close> returns the ids and
  the metadata in the same order; \<open>update\<close> merges, for every id it is given, the new
  metadata into the stored one.
\<close>

type_synonym collection = "(string \<times> pydict) list"

definition collection_get :: "collection \<Rightarrow> string list \<times> pydict list" where
  "collection_get c = (map fst c, map snd c)"

definition collection_update :: "collection \<Rightarrow> string list \<Rightarrow> pydict list \<Rightarrow> collection" where
  "collection_update c ids metadatas =
     map (\<lambda>(i, m). case map_of (zip ids metadatas) i of
                      None \<Rightarrow> (i, m)
                    | Some m' \<Rightarrow> (i, m ++ m')) c"

text \<open>\<open>migrate_categories\<close> returns the collection after the pass together with the
  \<open>update\<close> calls it issued, each with its ids and metadata.\<close>

definition migrate_categories ::
  "(string \<Rightarrow> py_exception + pyval) \<Rightarrow> collection \<Rightarrow> collection \<times> (string list \<times> pydict list) list" where
  "migrate_categories loads c =
     (let (ids, metadatas) = collection_get c;
          updated_metadatas = migrate_loop loads metadatas []
      in if updated_metadatas \<noteq> [] then
           (collection_update c ids updated_metadatas, [(ids, updated_metadatas)])
         else (c, []))"

section \<open>Clean categories\<close>

text \<open>
  The single-category invariant of the stored metadata, in the words of the
  specification: the category is one scalar string, neither empty, nor JSON-encoded
  (leading bracket), nor comma-joined.
\<close>

definition clean_category :: "pyval option \<Rightarrow> bool" where
  "clean_category v =
     (case v of
        Some (PStr s) \<Rightarrow> s \<noteq> [] \<and> \<not> startswith s ''['' \<and> CHR '','' \<notin> set s
      | _ \<Rightarrow> False)"

text \<open>The category entries of the records of a collection, in store order.\<close>

definition record_categories :: "collection \<Rightarrow> pyval option list" where
  "record_categories c = map (\<lambda>(i, m). m ''categories'') c"

section \<open>Text helpers\<close>

text \<open>
  Characters stand for the code points below 256. On these, the whitespace of
  \<open>str.strip()\<close> and \<open>str.split()\<close> (both called without arguments) is: tab, line
  feed, vertical tab, form feed, carriage return, the separators 28 to 31, space,
  next line (133) and no-break space (160).
\<close>

definition py_isspace :: "char \<Rightarrow> bool" where
  "py_isspace c =
     (c \<in> {CHR 0x09, CHR 0x0A, CHR 0x0B, CHR 0x0C, CHR 0x0D, CHR 0x1C, CHR 0x1D, CHR 0x1E,
            CHR 0x1F, CHR 0x20, CHR 0x85, CHR 0xA0})"

definition py_strip :: "string \<Rightarrow> string" where
  "py_strip s = rev (dropWhile py_isspace (rev (dropWhile py_isspace s)))"

text \<open>\<open>s.split()\<close>: the maximal runs of non-whitespace characters, in order;
  \<open>tok\<close> is the token being read.\<close>

fun split_ws :: "string \<Rightarrow> string \<Rightarrow> string list" where
  "split_ws [] tok = (if tok = [] then [] else [tok])"
| "split_ws (c # cs) tok =
     (if py_isspace c then (if tok = [] then split_ws cs [] else tok # split_ws cs [])
      else split_ws cs (tok @ [c]))"

definition py_split :: "string \<Rightarrow> string list" where
  "py_split s = split_ws s []"

text \<open>
  A formatted field \<open>{v}\<close> of an f-string: a string stands for itself; the text of
  any other value is left to \<open>repr\<close>, a parameter.
\<close>

definition py_format :: "(pyval \<Rightarrow> string) \<Rightarrow> pyval \<Rightarrow> string" where
  "py_format repr v = (case v of PStr s \<Rightarrow> s | _ \<Rightarrow> repr v)"

text \<open>\<open>v[:n]\<close> for a non-negative \<open>n\<close>: strings and lists can be sliced.\<close>

definition py_slice :: "nat \<Rightarrow> pyval \<Rightarrow> py_exception + pyval" where
  "py_slice n v =
     (case v of
        PStr s \<Rightarrow> Inr (PStr (take n s))
      | PList xs \<Rightarrow> Inr (PList (take n xs))
      | _ \<Rightarrow> Inl TypeError)"

text \<open>\<open>xs[:limit]\<close> on a list, where \<open>limit\<close> is \<open>None\<close> or an integer; a negative
  limit counts from the end.\<close>

definition slice_limit :: "int option \<Rightarrow> 'a list \<Rightarrow> 'a list" where
  "slice_limit limit xs =
     (case limit of
        None \<Rightarrow> xs
      | Some n \<Rightarrow> if 0 \<le> n then take (nat n) xs else take (nat (int (length xs) + n)) xs)"

section \<open>External collaborators\<close>

text \<open>
  What the scraper consumes and this development leaves abstract: the zero-shot
  classifier, the embedding model, the upsert of the vector store (over any type
  \<open>'s\<close> of store states), the headless page loader and the selector queries of the
  HTML parser (over any type \<open>'n\<close> of document nodes), and the library functions
  \<open>hashlib.md5(...).hexdigest()\<close>, \<open>urljoin\<close>, \<open>round(x, 2)\<close>,
  \<open>datetime.now().isoformat()\<close> and the formatting of non-string values. Every call
  that can raise returns a sum. A run reads one clock value.
\<close>

record classification =
  labels :: "string list"
  scores :: "real list"

record stored_record =
  record_id :: string
  record_embedding :: "real list"
  record_document :: string
  record_metadata :: pydict

record site_config =
  site_url :: string
  site_selectors :: "string \<rightharpoonup> string"
  site_limit :: int

record ('s, 'n) deps =
  categorizer :: "string \<Rightarrow> string list \<Rightarrow> py_exception + classification"
  embedding_model :: "string \<Rightarrow> py_exception + real list"
  collection_upsert :: "'s \<Rightarrow> stored_record list \<Rightarrow> py_exception + 's"
  load_page :: "string \<Rightarrow> py_exception + 'n"
  soup_select :: "'n \<Rightarrow> string \<Rightarrow> py_exception + 'n list"
  select_one :: "'n \<Rightarrow> string \<Rightarrow> py_exception + 'n option"
  get_text :: "'n \<Rightarrow> string"
  get_attr :: "'n \<Rightarrow> string \<Rightarrow> string option"
  urljoin :: "string \<Rightarrow> string \<Rightarrow> string"
  md5_hexdigest :: "string \<Rightarrow> string"
  round2 :: "real \<Rightarrow> real"
  now_isoformat :: string
  py_repr :: "pyval \<Rightarrow> string"
  websites :: "(string \<times> site_config) list"

section \<open>Identity, embedding and categorization\<close>

definition categories :: "string list" where
  "categories =
     [''politics'', ''sports'', ''tech'', ''business'',
      ''entertainment'', ''health'', ''science'', ''world news'',
      ''environment'', ''military'', ''crime'', ''economy'']"

text \<open>The string that is hashed, \<open>f"{url}_{headline}"\<close>, and the id.\<close>

definition unique_string :: "('s, 'n) deps \<Rightarrow> pyval \<Rightarrow> pyval \<Rightarrow> string" where
  "unique_string d url headline = py_format (py_repr d) url @ ''_'' @ py_format (py_repr d) headline"

definition generate_article_id :: "('s, 'n) deps \<Rightarrow> pyval \<Rightarrow> pyval \<Rightarrow> string" where
  "generate_article_id d url headline = md5_hexdigest d (unique_string d url headline)"

text \<open>
  \<open>generate_embedding\<close> and \<open>categorize_article\<close> return their outcome together
  with the texts they passed to the model, in call order.
\<close>

definition generate_embedding ::
  "('s, 'n) deps \<Rightarrow> string \<Rightarrow> (py_exception + real list) \<times> string list" where
  "generate_embedding d text_in =
     (if py_strip text_in = [] then (Inr (replicate 384 0), [])
      else (embedding_model d text_in, [text_in]))"

definition general_verdict :: pyval where
  "general_verdict = PDict [(''category'', PStr ''general''), (''confidence'', PFloat 1)]"

text \<open>The \<open>try\<close> block of \<open>categorize_article\<close>.\<close>

definition classify_try :: "('s, 'n) deps \<Rightarrow> string \<Rightarrow> py_exception + pyval" where
  "classify_try d text_in =
     (case categorizer d text_in categories of
        Inl e \<Rightarrow> Inl e
      | Inr result \<Rightarrow>
          (case list_index0 (labels result) of
             Inl e \<Rightarrow> Inl e
           | Inr top_category \<Rightarrow>
               (case list_index0 (scores result) of
                  Inl e \<Rightarrow> Inl e
                | Inr top_score \<Rightarrow>
                    Inr (PDict [(''category'', PStr top_category),
                                (''confidence'', PFloat (round2 d top_score))]))))"

definition categorize_article ::
  "('s, 'n) deps \<Rightarrow> string \<Rightarrow> (py_exception + pyval) \<times> string list" where
  "categorize_article d text_in =
     (if py_strip text_in = [] \<or> length (py_split text_in) < 3 then (Inr general_verdict, [])
      else
        ((case classify_try d text_in of
            Inl e \<Rightarrow> Inr general_verdict
          | Inr verdict \<Rightarrow> Inr verdict),
         [text_in]))"

section \<open>Extraction of one source\<close>

text \<open>
  The body of the inner \<open>try\<close> block of \<open>scrape_website\<close> for one container: the
  four selector queries, the resolution of link and image against the page url, and
  the item that is appended when headline and link are present. \<open>None\<close> is a
  container that yields no item.
\<close>

definition selector_or :: "(string \<rightharpoonup> string) \<Rightarrow> string \<Rightarrow> string \<Rightarrow> string" where
  "selector_or selectors k dflt = (case selectors k of None \<Rightarrow> dflt | Some s \<Rightarrow> s)"

definition elem_text :: "('s, 'n) deps \<Rightarrow> 'n option \<Rightarrow> string \<Rightarrow> string" where
  "elem_text d elem dflt = (case elem of Some el \<Rightarrow> get_text d el | None \<Rightarrow> dflt)"

text \<open>\<open>urljoin(url, link_elem["href"]) if link_elem and link_elem.get("href") else ""\<close>.\<close>

definition resolve_link :: "('s, 'n) deps \<Rightarrow> string \<Rightarrow> 'n option \<Rightarrow> string" where
  "resolve_link d url link_elem =
     (case link_elem of
        None \<Rightarrow> []
      | Some el \<Rightarrow>
          (case get_attr d el ''href'' of
             None \<Rightarrow> []
           | Some href \<Rightarrow> if href \<noteq> [] then urljoin d url href else []))"

text \<open>The image: \<open>src\<close>, or else \<open>data-src\<close>, resolved when it is not empty.\<close>

definition resolve_image :: "('s, 'n) deps \<Rightarrow> string \<Rightarrow> 'n option \<Rightarrow> string" where
  "resolve_image d url img_elem =
     (case img_elem of
        None \<Rightarrow> []
      | Some el \<Rightarrow>
          (let src = (case get_attr d el ''src'' of None \<Rightarrow> [] | Some s \<Rightarrow> s);
               img_src =
                 (if src \<noteq> [] then src
                  else (case get_attr d el ''data-src'' of None \<Rightarrow> [] | Some s \<Rightarrow> s))
           in if img_src \<noteq> [] then urljoin d url img_src else []))"

text \<open>The dictionary appended to \<open>items\<close>.\<close>

definition new_item ::
  "('s, 'n) deps \<Rightarrow> string \<Rightarrow> string \<Rightarrow> string \<Rightarrow> string \<Rightarrow> string \<Rightarrow> pydict" where
  "new_item d url headline description link img =
     [''headline'' \<mapsto> PStr headline,
      ''description'' \<mapsto> PStr description,
      ''url'' \<mapsto> PStr link,
      ''image'' \<mapsto> PStr img,
      ''source'' \<mapsto> PStr url,
      ''scraped_at'' \<mapsto> PStr (now_isoformat d)]"

definition scrape_container ::
  "('s, 'n) deps \<Rightarrow> string \<Rightarrow> (string \<rightharpoonup> string) \<Rightarrow> 'n \<Rightarrow> py_exception + pydict option" where
  "scrape_container d url selectors container =
     (case selectors ''headline'' of
        None \<Rightarrow> Inl KeyError
      | Some headline_selector \<Rightarrow>
     (case select_one d container headline_selector of
        Inl e \<Rightarrow> Inl e
      | Inr headline_elem \<Rightarrow>
     (case select_one d container (selector_or selectors ''description'' ''p'') of
        Inl e \<Rightarrow> Inl e
      | Inr desc_elem \<Rightarrow>
     (case select_one d container (selector_or selectors ''link'' ''a'') of
        Inl e \<Rightarrow> Inl e
      | Inr link_elem \<Rightarrow>
     (case select_one d container (selector_or selectors ''image'' ''img'') of
        Inl e \<Rightarrow> Inl e
      | Inr img_elem \<Rightarrow>
     (let headline = elem_text d headline_elem ''No headline'';
          description = elem_text d desc_elem [];
          link = resolve_link d url link_elem;
          img = resolve_image d url img_elem
      in if headline \<noteq> [] \<and> link \<noteq> [] \<and> headline \<noteq> ''No headline''
         then Inr (Some (new_item d url headline description link img))
         else Inr None))))))"

text \<open>The loop over the containers: a container whose block raises is skipped.\<close>

fun scrape_containers ::
  "('s, 'n) deps \<Rightarrow> string \<Rightarrow> (string \<rightharpoonup> string) \<Rightarrow> 'n list \<Rightarrow> pydict list \<Rightarrow> pydict list" where
  "scrape_containers d url selectors [] collected = collected"
| "scrape_containers d url selectors (container # rest) collected =
     (case scrape_container d url selectors container of
        Inr (Some item) \<Rightarrow> scrape_containers d url selectors rest (collected @ [item])
      | Inr None \<Rightarrow> scrape_containers d url selectors rest collected
      | Inl e \<Rightarrow> scrape_containers d url selectors rest collected)"

text \<open>\<open>scrape_website\<close>: page load, parse and container query inside the outer
  \<open>try\<close> block, whose handler returns the empty list.\<close>

definition scrape_website ::
  "('s, 'n) deps \<Rightarrow> string \<Rightarrow> (string \<rightharpoonup> string) \<Rightarrow> int option \<Rightarrow> pydict list" where
  "scrape_website d url selectors limit =
     (case load_page d url of
        Inl e \<Rightarrow> []
      | Inr soup \<Rightarrow>
          (case selectors ''container'' of
             None \<Rightarrow> []
           | Some container_selector \<Rightarrow>
               (case soup_select d soup container_selector of
                  Inl e \<Rightarrow> []
                | Inr found \<Rightarrow>
                    scrape_containers d url selectors (slice_limit limit found) [])))"

section \<open>Batched categorization\<close>

text \<open>\<open>f"{art['headline']} {art['description']}"\<close>; a missing key raises.\<close>

definition article_text :: "('s, 'n) deps \<Rightarrow> pydict \<Rightarrow> py_exception + string" where
  "article_text d art =
     (case art ''headline'' of
        None \<Rightarrow> Inl KeyError
      | Some h \<Rightarrow>
          (case art ''description'' of
             None \<Rightarrow> Inl KeyError
           | Some de \<Rightarrow> Inr (py_format (py_repr d) h @ '' '' @ py_format (py_repr d) de)))"

fun article_texts :: "('s, 'n) deps \<Rightarrow> pydict list \<Rightarrow> py_exception + string list" where
  "article_texts d [] = Inr []"
| "article_texts d (art # arts) =
     (case article_text d art of
        Inl e \<Rightarrow> Inl e
      | Inr t \<Rightarrow> (case article_texts d arts of Inl e \<Rightarrow> Inl e | Inr ts \<Rightarrow> Inr (t # ts)))"

text \<open>The argument of the debug message, \<open>batch_articles[j]['headline'][:50]\<close>, is
  evaluated whatever the log level.\<close>

definition debug_headline :: "pydict \<Rightarrow> py_exception + pyval" where
  "debug_headline art =
     (case art ''headline'' of None \<Rightarrow> Inl KeyError | Some h \<Rightarrow> py_slice 50 h)"

text \<open>
  The inner loop over one batch. It returns the articles appended to
  \<open>categorized_articles\<close>, the articles of the batch as the loop left them (an
  article is assigned its category in place before the debug message is built), and
  the exception that ended the loop, if any. Distinct positions of the article list
  hold distinct dictionaries, as \<open>scrape_website\<close> builds them.
\<close>

fun categorize_batch ::
  "('s, 'n) deps \<Rightarrow> pydict list \<Rightarrow> string list
   \<Rightarrow> pydict list \<times> pydict list \<times> py_exception option" where
  "categorize_batch d [] texts = ([], [], None)"
| "categorize_batch d (art # arts) [] = ([], art # arts, None)"
| "categorize_batch d (art # arts) (t # ts) =
     (case fst (categorize_article d t) of
        Inl e \<Rightarrow> ([], art # arts, Some e)
      | Inr category \<Rightarrow>
          (let art' = art(''categories'' \<mapsto> category) in
           case debug_headline art' of
             Inl e \<Rightarrow> ([], art' # arts, Some e)
           | Inr shown \<Rightarrow>
               (case categorize_batch d arts ts of
                  (appended, batch_articles, raised) \<Rightarrow>
                    (art' # appended, art' # batch_articles, raised))))"

text \<open>One batch with its handler, which extends the result by the whole batch.\<close>

definition process_batch :: "('s, 'n) deps \<Rightarrow> pydict list \<Rightarrow> string list \<Rightarrow> pydict list" where
  "process_batch d batch_articles batch_texts =
     (case categorize_batch d batch_articles batch_texts of
        (appended, articles_after, None) \<Rightarrow> appended
      | (appended, articles_after, Some e) \<Rightarrow> appended @ articles_after)"

function process_batches :: "('s, 'n) deps \<Rightarrow> pydict list \<Rightarrow> string list \<Rightarrow> pydict list" where
  "process_batches d articles texts =
     (if articles = [] then []
      else process_batch d (take 4 articles) (take 4 texts)
           @ process_batches d (drop 4 articles) (drop 4 texts))"
  by pat_completeness auto
termination
  by (relation "measure (\<lambda>(d, articles, texts). length articles)") auto

definition process_articles_batch ::
  "('s, 'n) deps \<Rightarrow> pydict list \<Rightarrow> py_exception + pydict list" where
  "process_articles_batch d articles =
     (if articles = [] then Inr []
      else (case article_texts d articles of
              Inl e \<Rightarrow> Inl e
            | Inr texts \<Rightarrow> Inr (process_batches d articles texts)))"

section \<open>Storage\<close>

text \<open>\<open>article.get('categories', {}).get('category', 'general')\<close>.\<close>

definition stored_category :: "pydict \<Rightarrow> py_exception + pyval" where
  "stored_category article =
     (case (case article ''categories'' of None \<Rightarrow> PDict [] | Some v \<Rightarrow> v) of
        PDict verdict \<Rightarrow>
          (case map_of verdict ''category'' of
             None \<Rightarrow> Inr (PStr ''general'')
           | Some c \<Rightarrow> Inr c)
      | _ \<Rightarrow> Inl AttributeError)"

text \<open>One iteration of the loop of \<open>store_in_chromadb\<close>: the id, embedding, document
  text and metadata appended for one article, in the evaluation order of the source.\<close>

definition store_record :: "('s, 'n) deps \<Rightarrow> pydict \<Rightarrow> py_exception + stored_record" where
  "store_record d article =
     (case article_text d article of
        Inl e \<Rightarrow> Inl e
      | Inr doc_text \<Rightarrow>
     (case fst (generate_embedding d doc_text) of
        Inl e \<Rightarrow> Inl e
      | Inr embedding \<Rightarrow>
     (case article ''url'' of
        None \<Rightarrow> Inl KeyError
      | Some url \<Rightarrow>
     (case article ''headline'' of
        None \<Rightarrow> Inl KeyError
      | Some headline \<Rightarrow>
     (case article ''description'' of
        None \<Rightarrow> Inl KeyError
      | Some description \<Rightarrow>
     (case py_slice 500 description of
        Inl e \<Rightarrow> Inl e
      | Inr description_cut \<Rightarrow>
     (case py_slice 200 (case article ''image'' of None \<Rightarrow> PStr [] | Some v \<Rightarrow> v) of
        Inl e \<Rightarrow> Inl e
      | Inr image_cut \<Rightarrow>
     (case article ''source'' of
        None \<Rightarrow> Inl KeyError
      | Some source \<Rightarrow>
     (case article ''scraped_at'' of
        None \<Rightarrow> Inl KeyError
      | Some scraped_at \<Rightarrow>
     (case stored_category article of
        Inl e \<Rightarrow> Inl e
      | Inr category \<Rightarrow>
          Inr \<lparr>record_id = generate_article_id d url headline,
               record_embedding = embedding,
               record_document = doc_text,
               record_metadata =
                 [''headline'' \<mapsto> headline,
                  ''description'' \<mapsto> description_cut,
                  ''url'' \<mapsto> url,
                  ''image'' \<mapsto> image_cut,
                  ''source'' \<mapsto> source,
                  ''scraped_at'' \<mapsto> scraped_at,
                  ''categories'' \<mapsto> category,
                  ''text_length'' \<mapsto> PInt (int (length doc_text))]\<rparr>))))))))))"

fun store_records :: "('s, 'n) deps \<Rightarrow> pydict list \<Rightarrow> py_exception + stored_record list" where
  "store_records d [] = Inr []"
| "store_records d (article # rest) =
     (case store_record d article of
        Inl e \<Rightarrow> Inl e
      | Inr r \<Rightarrow> (case store_records d rest of Inl e \<Rightarrow> Inl e | Inr rs \<Rightarrow> Inr (r # rs)))"

text \<open>\<open>store_in_chromadb\<close>: nothing is written for an empty list; otherwise the
  records are built and handed to the store in one \<open>upsert\<close>.\<close>

definition store_in_chromadb :: "('s, 'n) deps \<Rightarrow> pydict list \<Rightarrow> 's \<Rightarrow> py_exception + 's" where
  "store_in_chromadb d articles store =
     (if articles = [] then Inr store
      else (case store_records d articles of
              Inl e \<Rightarrow> Inl e
            | Inr records \<Rightarrow> collection_upsert d store records))"

section \<open>The run over the configured sources\<close>

text \<open>
  One iteration of the loop of \<open>scrape_all_websites\<close>, on the articles collected so
  far and the state of the store: any exception leaves both as they were and the loop
  continues with the next source.
\<close>

definition scrape_site ::
  "('s, 'n) deps \<Rightarrow> int \<Rightarrow> site_config \<Rightarrow> pydict list \<times> 's \<Rightarrow> pydict list \<times> 's" where
  "scrape_site d max_articles_per_site config st =
     (case st of (all_articles, store) \<Rightarrow>
        (let articles =
               scrape_website d (site_url config) (site_selectors config)
                 (Some (min (site_limit config) max_articles_per_site))
         in if articles \<noteq> [] then
              (case process_articles_batch d articles of
                 Inl e \<Rightarrow> (all_articles, store)
               | Inr processed_articles \<Rightarrow>
                   (case store_in_chromadb d processed_articles store of
                      Inl e \<Rightarrow> (all_articles, store)
                    | Inr store' \<Rightarrow> (all_articles @ processed_articles, store')))
            else (all_articles, store)))"

fun scrape_sites ::
  "('s, 'n) deps \<Rightarrow> int \<Rightarrow> (string \<times> site_config) list \<Rightarrow> pydict list \<times> 's \<Rightarrow> pydict list \<times> 's" where
  "scrape_sites d max_articles_per_site [] st = st"
| "scrape_sites d max_articles_per_site ((site_name, config) # rest) st =
     scrape_sites d max_articles_per_site rest (scrape_site d max_articles_per_site config st)"

definition scrape_all_websites :: "('s, 'n) deps \<Rightarrow> int \<Rightarrow> 's \<Rightarrow> pydict list \<times> 's" where
  "scrape_all_websites d max_articles_per_site store =
     scrape_sites d max_articles_per_site (websites d) ([], store)"

text \<open>\<open>main\<close> dumps the articles returned by the run with at most 12 articles per
  site as the JSON array of \<open>efficient_articles.json\<close>.\<close>

definition persisted_articles :: "('s, 'n) deps \<Rightarrow> 's \<Rightarrow> pydict list" where
  "persisted_articles d store = fst (scrape_all_websites d 12 store)"

section \<open>Shapes of articles\<close>

text \<open>
  Predicates used to state what the run produces: a field that holds a string, the
  six string fields of a scraped item, and the verdict of the categorizer, a
  dictionary with a string \<open>category\<close> and a float \<open>confidence\<close>.
\<close>

definition string_field :: "pydict \<Rightarrow> string \<Rightarrow> bool" where
  "string_field a k = (case a k of Some (PStr s) \<Rightarrow> True | _ \<Rightarrow> False)"

definition item_fields :: "pydict \<Rightarrow> bool" where
  "item_fields a =
     (string_field a ''headline'' \<and> string_field a ''description'' \<and> string_field a ''url''
      \<and> string_field a ''image'' \<and> string_field a ''source'' \<and> string_field a ''scraped_at'')"

definition verdict_shape :: "pyval \<Rightarrow> bool" where
  "verdict_shape v =
     (case v of
        PDict [(k1, PStr c), (k2, PFloat x)] \<Rightarrow> k1 = ''category'' \<and> k2 = ''confidence''
      | _ \<Rightarrow> False)"

text \<open>The verdict \<open>categorize_article\<close> returns for the text of an article.\<close>

definition article_verdict :: "('s, 'n) deps \<Rightarrow> pydict \<Rightarrow> pyval" where
  "article_verdict d art =
     (case article_text d art of
        Inl e \<Rightarrow> PNone
      | Inr t \<Rightarrow> (case fst (categorize_article d t) of Inl e \<Rightarrow> PNone | Inr v \<Rightarrow> v))"

definition categorized :: "('s, 'n) deps \<Rightarrow> pydict \<Rightarrow> pydict" where
  "categorized d art = art(''categories'' \<mapsto> article_verdict d art)"

text \<open>
  The articles of the sources that succeeded, in the words of the specification: a
  source succeeds when it yields items that are categorized and stored; its
  processed articles are then part of the result, and the store moves on.
\<close>

definition site_outcome ::
  "('s, 'n) deps \<Rightarrow> int \<Rightarrow> site_config \<Rightarrow> 's \<Rightarrow> (pydict list \<times> 's) option" where
  "site_outcome d max_articles_per_site config store =
     (let articles =
            scrape_website d (site_url config) (site_selectors config)
              (Some (min (site_limit config) max_articles_per_site))
      in if articles = [] then None
         else (case process_articles_batch d articles of
                 Inl e \<Rightarrow> None
               | Inr processed \<Rightarrow>
                   (case store_in_chromadb d processed store of
                      Inl e \<Rightarrow> None
                    | Inr store' \<Rightarrow> Some (processed, store'))))"

fun succeeded_articles ::
  "('s, 'n) deps \<Rightarrow> int \<Rightarrow> (string \<times> site_config) list \<Rightarrow> 's \<Rightarrow> pydict list" where
  "succeeded_articles d max_articles_per_site [] store = []"
| "succeeded_articles d max_articles_per_site ((site_name, config) # rest) store =
     (case site_outcome d max_articles_per_site config store of
        None \<Rightarrow> succeeded_articles d max_articles_per_site rest store
      | Some (processed, store') \<Rightarrow>
          processed @ succeeded_articles d max_articles_per_site rest store')"

text \<open>
  The shape of a processed article: the six string fields of the item and, under the
  key \<open>categories\<close>, the verdict; no key \<open>category\<close> or \<open>confidence\<close> of its own.
\<close>

definition scraped_item :: "pydict \<Rightarrow> bool" where
  "scraped_item a = (item_fields a \<and> a ''category'' = None \<and> a ''confidence'' = None)"

definition article_shape :: "pydict \<Rightarrow> bool" where
  "article_shape a =
     (scraped_item a \<and> (case a ''categories'' of None \<Rightarrow> False | Some v \<Rightarrow> verdict_shape v))"

section \<open>Sample data\<close>

text \<open>
  A decoder that agrees with \<open>json.loads\<close> on the legacy encodings used below
  (anything else it is given is not valid JSON), and three small collections.
\<close>

definition loads_fixture :: "string \<Rightarrow> py_exception + pyval" where
  "loads_fixture s =
     (if s = ''[{\"category\":\"tech\",\"score\":0.9}]''
        then Inr (PList [PDict [(''category'', PStr ''tech''), (''score'', PFloat (9 / 10))]])
      else if s = ''[]'' then Inr (PList [])
      else if s = ''[\"tech\"]'' then Inr (PList [PStr ''tech''])
      else if s = ''[{\"name\":\"tech\"}]'' then Inr (PList [PDict [(''name'', PStr ''tech'')]])
      else Inl JSONDecodeError)"

definition legacy_collection :: collection where
  "legacy_collection =
     [(''a1'', [''categories'' \<mapsto> PStr ''[{\"category\":\"tech\",\"score\":0.9}]'']),
      (''a2'', [''categories'' \<mapsto> PStr ''sports,tech'']),
      (''a3'', [''categories'' \<mapsto> PStr '''']),
      (''a4'', [''categories'' \<mapsto> PStr ''world news'']),
      (''a5'', [''categories'' \<mapsto> PInt 7]),
      (''a6'', [''headline'' \<mapsto> PStr ''Budget vote'', ''categories'' \<mapsto> PStr ''[politics'']),
      (''a7'', [''headline'' \<mapsto> PStr ''Cup final''])]"

definition comma_first_collection :: collection where
  "comma_first_collection = [(''b1'', [''categories'' \<mapsto> PStr '',tech''])]"

definition clean_collection :: collection where
  "clean_collection = [(''c1'', [''categories'' \<mapsto> PStr ''tech''])]"

text \<open>
  A sample environment. Documents are trees of elements, each with the selector it
  answers to, its attributes, its text and its children; a query looks among the
  descendants of a node, and querying inside an element marked \<open>broken\<close> raises.
\<close>

datatype dom = Elem string "(string \<times> string) list" string "dom list"

fun dom_nodes :: "dom \<Rightarrow> dom list" where
  "dom_nodes (Elem name attrs txt children) =
     Elem name attrs txt children # concat (map dom_nodes children)"

fun dom_matches :: "string \<Rightarrow> dom \<Rightarrow> bool" where
  "dom_matches sel (Elem name attrs txt children) = (name = sel)"

fun dom_attr :: "dom \<Rightarrow> string \<Rightarrow> string option" where
  "dom_attr (Elem name attrs txt children) k = map_of attrs k"

fun dom_text :: "dom \<Rightarrow> string" where
  "dom_text (Elem name attrs txt children) = txt"

definition dom_select :: "dom \<Rightarrow> string \<Rightarrow> py_exception + dom list" where
  "dom_select n sel = Inr (filter (dom_matches sel) (tl (dom_nodes n)))"

definition dom_select_one :: "dom \<Rightarrow> string \<Rightarrow> py_exception + dom option" where
  "dom_select_one n sel =
     (if dom_attr n ''broken'' \<noteq> None then Inl ExternalError
      else Inr (find (dom_matches sel) (tl (dom_nodes n))))"

definition sample_card :: "string \<Rightarrow> string \<Rightarrow> string \<Rightarrow> dom" where
  "sample_card title summary href =
     Elem ''.card'' [] []
       [Elem ''.title'' [] title [],
        Elem ''.summary'' [] summary [],
        Elem ''.more'' [(''href'', href)] [] [],
        Elem ''.pic'' [(''src'', []), (''data-src'', ''/img'' @ href @ ''.png'')] [] []]"

definition sample_page :: dom where
  "sample_page =
     Elem ''html'' [] []
       [sample_card ''Cup final tonight'' ''City win again'' ''/cup'',
        Elem ''.card'' [] [] [Elem ''.summary'' [] ''No title here'' [],
                              Elem ''.more'' [(''href'', ''/untitled'')] [] []],
        sample_card ''Storm warning issued'' ''Coast braces for wind'' ''/storm'',
        Elem ''.card'' [(''broken'', ''yes'')] [] [Elem ''.title'' [] ''Lost'' []],
        Elem ''.card'' [] [] [Elem ''.title'' [] ''Budget'' [],
                              Elem ''.more'' [(''href'', ''/budget'')] [] []],
        Elem ''.card'' [] [] [Elem ''.title'' [] ''No link at all'' []]]"

definition sample_selectors :: "string \<rightharpoonup> string" where
  "sample_selectors =
     [''container'' \<mapsto> ''.card'', ''headline'' \<mapsto> ''.title'', ''description'' \<mapsto> ''.summary'',
      ''link'' \<mapsto> ''.more'', ''image'' \<mapsto> ''.pic'']"

definition sample_upsert ::
  "stored_record list \<Rightarrow> stored_record list \<Rightarrow> py_exception + stored_record list" where
  "sample_upsert store records =
     Inr (filter (\<lambda>r. record_id r \<notin> set (map record_id records)) store @ records)"

text \<open>The first source cannot be loaded; the classifier raises on storm reports; the
  digest is a stand-in that keeps its argument.\<close>

definition sample_deps :: "(stored_record list, dom) deps" where
  "sample_deps =
     \<lparr>categorizer =
        (\<lambda>text_in candidate_labels.
           if startswith text_in ''Storm'' then Inl ExternalError
           else Inr \<lparr>labels = [''sports'', ''politics''], scores = [8712 / 10000, 1288 / 10000]\<rparr>),
      embedding_model = (\<lambda>text_in. Inr (replicate 384 (1 / 4))),
      collection_upsert = sample_upsert,
      load_page =
        (\<lambda>url. if url = ''https://a.example'' then Inl ExternalError else Inr sample_page),
      soup_select = dom_select,
      select_one = dom_select_one,
      get_text = dom_text,
      get_attr = dom_attr,
      urljoin = (\<lambda>base href. base @ href),
      md5_hexdigest = (\<lambda>s. s),
      round2 = (\<lambda>x. real_of_int (round (x * 100)) / 100),
      now_isoformat = ''2024-05-01T12:00:00'',
      py_repr = (\<lambda>v. ''<object>''),
      websites =
        [(''a_news'', \<lparr>site_url = ''https://a.example'', site_selectors = sample_selectors,
                       site_limit = 12\<rparr>),
         (''b_news'', \<lparr>site_url = ''https://b.example'', site_selectors = sample_selectors,
                       site_limit = 12\<rparr>)]\<rparr>"

text \<open>Five items as \<open>scrape_website\<close> builds them: more than one batch of four.\<close>

definition sample_batch :: "pydict list" where
  "sample_batch =
     [new_item sample_deps ''https://b.example'' ''Cup final tonight'' ''City win again''
        ''https://b.example/cup'' [],
      new_item sample_deps ''https://b.example'' ''Storm warning issued'' ''Coast braces for wind''
        ''https://b.example/storm'' [],
      new_item sample_deps ''https://b.example'' ''Budget'' [] ''https://b.example/budget'' [],
      new_item sample_deps ''https://b.example'' ''Market rally continues'' ''Shares climb''
        ''https://b.example/market'' [],
      new_item sample_deps ''https://b.example'' ''Storm damage counted'' ''Roofs lost''
        ''https://b.example/damage'' []]"

section \<open>Properties of the migration routine\<close>

text \<open>The loop appends one migrated record per stored record, in order.\<close>

lemma migrate_loop_map:
  "migrate_loop loads ms acc = acc @ map (migrate_metadata loads) ms"
  by (induction ms arbitrary: acc) simp_all

text \<open>The first segment of a split is the text before the first separator.\<close>

lemma split_on_not_Nil: "split_on sep s \<noteq> []"
  by (induction s) (simp_all split: list.splits)

lemma list_index0_split_on:
  "list_index0 (split_on sep s) = Inr (takeWhile (\<lambda>c. c \<noteq> sep) s)"
proof (induction s)
  case Nil
  show ?case by simp
next
  case (Cons c cs)
  then show ?case
    by (cases "split_on sep cs") (simp_all add: split_on_not_Nil)
qed

text \<open>A pass touches no key of a record but \<open>categories\<close>.\<close>

lemma migrate_try_shape:
  "migrate_try loads m = Inr m' \<Longrightarrow> m' = m \<or> (\<exists>v. m' = m(''categories'' \<mapsto> v))"
  unfolding migrate_try_def Let_def
  by (simp split: option.splits pyval.splits sum.splits if_splits) blast+

lemma migrate_metadata_shape:
  "migrate_metadata loads m = m \<or> (\<exists>v. migrate_metadata loads m = m(''categories'' \<mapsto> v))"
proof (cases "migrate_try loads m")
  case (Inl e)
  then show ?thesis by (simp add: migrate_metadata_def) blast
next
  case (Inr m')
  with migrate_try_shape [OF Inr] show ?thesis by (simp add: migrate_metadata_def)
qed

lemma map_add_self_upd: "m ++ m(k \<mapsto> v) = m(k \<mapsto> v)"
  by (rule ext) (simp add: map_add_def split: option.splits)

lemma merge_migrate_metadata:
  "m ++ migrate_metadata loads m = migrate_metadata loads m"
proof -
  from migrate_metadata_shape [of loads m] show ?thesis
  proof
    assume "migrate_metadata loads m = m"
    moreover have "m ++ m = m"
      by (rule ext) (simp add: map_add_def split: option.splits)
    ultimately show ?thesis by simp
  next
    assume "\<exists>v. migrate_metadata loads m = m(''categories'' \<mapsto> v)"
    then obtain v where "migrate_metadata loads m = m(''categories'' \<mapsto> v)" ..
    then show ?thesis by (simp only: map_add_self_upd)
  qed
qed

lemma migrate_metadata_other_keys:
  "k \<noteq> ''categories'' \<Longrightarrow> migrate_metadata loads m k = m k"
  using migrate_metadata_shape [of loads m] by auto

text \<open>With distinct ids, the batched update replaces every record by its migrated
  metadata.\<close>

lemma map_of_zip_fst:
  "distinct (map fst c) \<Longrightarrow> (i, m) \<in> set c \<Longrightarrow>
   map_of (zip (map fst c) (map g c)) i = Some (g (i, m))"
proof (induction c)
  case Nil
  then show ?case by simp
next
  case (Cons x c)
  then show ?case by (cases x) (auto simp: rev_image_eqI)
qed

lemma collection_update_all:
  assumes "distinct (map fst c)"
  shows "collection_update c (map fst c) (map g c) = map (\<lambda>(i, m). (i, m ++ g (i, m))) c"
  unfolding collection_update_def
  by (rule map_cong [OF refl]) (auto simp: map_of_zip_fst [OF assms])

lemma migrate_categories_records:
  assumes "distinct (map fst c)"
  shows "fst (migrate_categories loads c) = map (\<lambda>(i, m). (i, migrate_metadata loads m)) c"
proof (cases c)
  case Nil
  then show ?thesis
    by (simp add: migrate_categories_def collection_get_def)
next
  case (Cons x xs)
  have "collection_update c (map fst c) (map (migrate_metadata loads \<circ> snd) c) =
        map (\<lambda>(i, m). (i, migrate_metadata loads m)) c"
    by (simp add: collection_update_all [OF assms] merge_migrate_metadata)
  with Cons show ?thesis
    by (simp add: migrate_categories_def collection_get_def migrate_loop_map)
qed

text \<open>The branches of the \<open>try\<close> block, one lemma per kind of stored value.\<close>

lemma migrate_try_json:
  "metadata ''categories'' = Some (PStr s) \<Longrightarrow> startswith s ''['' \<Longrightarrow>
   migrate_try loads metadata =
     (case loads s of
        Inl e \<Rightarrow> Inl e
      | Inr category_list \<Rightarrow>
          if py_truthy category_list then
            (case py_index0 category_list of
               Inl e \<Rightarrow> Inl e
             | Inr first \<Rightarrow>
                 (case py_getitem first ''category'' of
                    Inl e \<Rightarrow> Inl e
                  | Inr c \<Rightarrow> Inr (metadata(''categories'' \<mapsto> c))))
          else Inr (metadata(''categories'' \<mapsto> PStr ''general'')))"
  by (simp add: migrate_try_def)

lemma migrate_try_plain:
  "metadata ''categories'' = Some (PStr s) \<Longrightarrow> \<not> startswith s ''['' \<Longrightarrow>
   migrate_try loads metadata =
     (if CHR '','' \<in> set s
        then Inr (metadata(''categories'' \<mapsto> PStr (takeWhile (\<lambda>c. c \<noteq> CHR '','') s)))
      else if s = [] then Inr (metadata(''categories'' \<mapsto> PStr ''general''))
      else Inr metadata)"
  by (simp add: migrate_try_def list_index0_split_on)

lemma migrate_try_missing:
  "metadata ''categories'' = None \<Longrightarrow>
   migrate_try loads metadata = Inr (metadata(''categories'' \<mapsto> PStr ''general''))"
  by (simp add: migrate_try_def startswith_def)

lemma migrate_try_not_str:
  "metadata ''categories'' = Some v \<Longrightarrow> (\<forall>s. v \<noteq> PStr s) \<Longrightarrow>
   migrate_try loads metadata = Inl AttributeError"
  by (cases v) (simp_all add: migrate_try_def)

text \<open>What the handler makes of a decoded value that is no list, and of a first
  element that is no object.\<close>

lemma migrate_try_decoded_not_list:
  assumes "metadata ''categories'' = Some (PStr s)" "startswith s ''[''"
    "loads s = Inr v" "\<forall>xs. v \<noteq> PList xs"
  shows "migrate_metadata loads metadata = metadata(''categories'' \<mapsto> PStr ''general'')"
proof (cases v)
  case (PList xs)
  with assms(4) show ?thesis by simp
next
  case (PStr t)
  with assms show ?thesis
    by (cases t) (simp_all add: migrate_metadata_def migrate_try_json)
qed (use assms in \<open>simp_all add: migrate_metadata_def migrate_try_json\<close>)

lemma migrate_first_not_object:
  assumes "metadata ''categories'' = Some (PStr s)" "startswith s ''[''"
    "loads s = Inr (PList (first # rest))" "\<forall>d. first \<noteq> PDict d"
  shows "migrate_metadata loads metadata = metadata(''categories'' \<mapsto> PStr ''general'')"
  using assms by (cases first) (simp_all add: migrate_metadata_def migrate_try_json)

text \<open>
  Claim C1. For a stored record processed by \<open>migrate_categories\<close>: a category
  string starting with a bracket that decodes to a JSON array whose first element is
  an object with a \<open>category\<close> field becomes that field, or \<open>"general"\<close> for the
  empty array; otherwise a string with a comma becomes its first comma-delimited
  segment; a missing or empty category becomes \<open>"general"\<close>; any other string
  leaves the record unchanged. Every error of the mapping forces the category to
  \<open>"general"\<close>: a category that is no string, a decoder that raises, a decoded
  value that is no list, a first element that is no object, and an object without
  the \<open>category\<close> field. In every case the other keys of the record are kept, and
  the pass as a whole maps every record of the collection this way, so no record
  can abort it.
\<close>

theorem migrate_metadata_cases:
  "(metadata ''categories'' = Some (PStr s) \<and> startswith s ''['' \<and>
      loads s = Inr (PList (PDict d # rest)) \<and> map_of d ''category'' = Some c
      \<longrightarrow> migrate_metadata loads metadata = metadata(''categories'' \<mapsto> c))
   \<and> (metadata ''categories'' = Some (PStr s) \<and> startswith s ''['' \<and> loads s = Inr (PList [])
      \<longrightarrow> migrate_metadata loads metadata = metadata(''categories'' \<mapsto> PStr ''general''))
   \<and> (metadata ''categories'' = Some (PStr s) \<and> \<not> startswith s ''['' \<and> CHR '','' \<in> set s
      \<longrightarrow> list_index0 (split_on CHR '','' s) = Inr (takeWhile (\<lambda>x. x \<noteq> CHR '','') s)
        \<and> migrate_metadata loads metadata =
            metadata(''categories'' \<mapsto> PStr (takeWhile (\<lambda>x. x \<noteq> CHR '','') s)))
   \<and> (metadata ''categories'' = None \<or> metadata ''categories'' = Some (PStr [])
      \<longrightarrow> migrate_metadata loads metadata = metadata(''categories'' \<mapsto> PStr ''general''))
   \<and> (metadata ''categories'' = Some (PStr s) \<and> s \<noteq> [] \<and> \<not> startswith s ''['' \<and>
      CHR '','' \<notin> set s
      \<longrightarrow> migrate_metadata loads metadata = metadata)
   \<and> (metadata ''categories'' = Some v \<and> (\<forall>t. v \<noteq> PStr t)
      \<longrightarrow> migrate_metadata loads metadata = metadata(''categories'' \<mapsto> PStr ''general''))
   \<and> (metadata ''categories'' = Some (PStr s) \<and> startswith s ''['' \<and> loads s = Inl e
      \<longrightarrow> migrate_metadata loads metadata = metadata(''categories'' \<mapsto> PStr ''general''))
   \<and> (metadata ''categories'' = Some (PStr s) \<and> startswith s ''['' \<and> loads s = Inr v \<and>
      (\<forall>xs. v \<noteq> PList xs)
      \<longrightarrow> migrate_metadata loads metadata = metadata(''categories'' \<mapsto> PStr ''general''))
   \<and> (metadata ''categories'' = Some (PStr s) \<and> startswith s ''['' \<and>
      loads s = Inr (PList (first # rest)) \<and> (\<forall>d. first \<noteq> PDict d)
      \<longrightarrow> migrate_metadata loads metadata = metadata(''categories'' \<mapsto> PStr ''general''))
   \<and> (metadata ''categories'' = Some (PStr s) \<and> startswith s ''['' \<and>
      loads s = Inr (PList (PDict d # rest)) \<and> map_of d ''category'' = None
      \<longrightarrow> migrate_metadata loads metadata = metadata(''categories'' \<mapsto> PStr ''general''))
   \<and> (distinct (map fst coll)
      \<longrightarrow> fst (migrate_categories loads coll) =
            map (\<lambda>(i, m). (i, migrate_metadata loads m)) coll)"
proof (intro conjI impI)
  assume "metadata ''categories'' = Some (PStr s) \<and> startswith s ''['' \<and>
      loads s = Inr (PList (PDict d # rest)) \<and> map_of d ''category'' = Some c"
  then show "migrate_metadata loads metadata = metadata(''categories'' \<mapsto> c)"
    by (simp add: migrate_metadata_def migrate_try_json)
next
  assume "metadata ''categories'' = Some (PStr s) \<and> startswith s ''['' \<and> loads s = Inr (PList [])"
  then show "migrate_metadata loads metadata = metadata(''categories'' \<mapsto> PStr ''general'')"
    by (simp add: migrate_metadata_def migrate_try_json)
next
  show "list_index0 (split_on CHR '','' s) = Inr (takeWhile (\<lambda>x. x \<noteq> CHR '','') s)"
    by (rule list_index0_split_on)
next
  assume "metadata ''categories'' = Some (PStr s) \<and> \<not> startswith s ''['' \<and> CHR '','' \<in> set s"
  then show "migrate_metadata loads metadata =
      metadata(''categories'' \<mapsto> PStr (takeWhile (\<lambda>x. x \<noteq> CHR '','') s))"
    by (simp add: migrate_metadata_def migrate_try_plain)
next
  assume "metadata ''categories'' = None \<or> metadata ''categories'' = Some (PStr [])"
  then show "migrate_metadata loads metadata = metadata(''categories'' \<mapsto> PStr ''general'')"
  proof
    assume "metadata ''categories'' = None"
    then show ?thesis by (simp add: migrate_metadata_def migrate_try_missing)
  next
    assume "metadata ''categories'' = Some (PStr [])"
    then show ?thesis
      by (simp add: migrate_metadata_def migrate_try_plain [where s = "[]"] startswith_def)
  qed
next
  assume "metadata ''categories'' = Some (PStr s) \<and> s \<noteq> [] \<and> \<not> startswith s ''['' \<and>
      CHR '','' \<notin> set s"
  then show "migrate_metadata loads metadata = metadata"
    by (simp add: migrate_metadata_def migrate_try_plain)
next
  assume "metadata ''categories'' = Some v \<and> (\<forall>t. v \<noteq> PStr t)"
  then show "migrate_metadata loads metadata = metadata(''categories'' \<mapsto> PStr ''general'')"
    by (simp add: migrate_metadata_def migrate_try_not_str)
next
  assume "metadata ''categories'' = Some (PStr s) \<and> startswith s ''['' \<and> loads s = Inl e"
  then show "migrate_metadata loads metadata = metadata(''categories'' \<mapsto> PStr ''general'')"
    by (simp add: migrate_metadata_def migrate_try_json)
next
  assume "metadata ''categories'' = Some (PStr s) \<and> startswith s ''['' \<and> loads s = Inr v \<and>
      (\<forall>xs. v \<noteq> PList xs)"
  then show "migrate_metadata loads metadata = metadata(''categories'' \<mapsto> PStr ''general'')"
    by (intro migrate_try_decoded_not_list [of metadata s loads v]) simp_all
next
  assume "metadata ''categories'' = Some (PStr s) \<and> startswith s ''['' \<and>
      loads s = Inr (PList (first # rest)) \<and> (\<forall>d. first \<noteq> PDict d)"
  then show "migrate_metadata loads metadata = metadata(''categories'' \<mapsto> PStr ''general'')"
    by (intro migrate_first_not_object [of metadata s loads first rest]) simp_all
next
  assume "metadata ''categories'' = Some (PStr s) \<and> startswith s ''['' \<and>
      loads s = Inr (PList (PDict d # rest)) \<and> map_of d ''category'' = None"
  then show "migrate_metadata loads metadata = metadata(''categories'' \<mapsto> PStr ''general'')"
    by (simp add: migrate_metadata_def migrate_try_json)
next
  assume "distinct (map fst coll)"
  then show "fst (migrate_categories loads coll) =
      map (\<lambda>(i, m). (i, migrate_metadata loads m)) coll"
    by (rule migrate_categories_records)
qed

text \<open>The scenario of the specification (the JSON-encoded record migrates to
  \<open>"tech"\<close>, \<open>"sports,tech"\<close> to \<open>"sports"\<close>, the empty string to
  \<open>"general"\<close>) and one record for every other case.\<close>

theorem migrate_metadata_cases_witness:
  "migrate_metadata loads_fixture
       [''categories'' \<mapsto> PStr ''[{\"category\":\"tech\",\"score\":0.9}]'']
     = [''categories'' \<mapsto> PStr ''tech'']
   \<and> migrate_metadata loads_fixture [''categories'' \<mapsto> PStr ''[]'']
     = [''categories'' \<mapsto> PStr ''general'']
   \<and> migrate_metadata loads_fixture [''categories'' \<mapsto> PStr ''sports,tech'']
     = [''categories'' \<mapsto> PStr ''sports'']
   \<and> migrate_metadata loads_fixture [''categories'' \<mapsto> PStr '''']
     = [''categories'' \<mapsto> PStr ''general'']
   \<and> migrate_metadata loads_fixture [''headline'' \<mapsto> PStr ''Cup final'']
     = [''headline'' \<mapsto> PStr ''Cup final'', ''categories'' \<mapsto> PStr ''general'']
   \<and> migrate_metadata loads_fixture [''categories'' \<mapsto> PStr ''world news'']
     = [''categories'' \<mapsto> PStr ''world news'']
   \<and> migrate_metadata loads_fixture [''categories'' \<mapsto> PInt 7]
     = [''categories'' \<mapsto> PStr ''general'']
   \<and> migrate_metadata loads_fixture
       [''headline'' \<mapsto> PStr ''Budget vote'', ''categories'' \<mapsto> PStr ''[politics'']
     = [''headline'' \<mapsto> PStr ''Budget vote'', ''categories'' \<mapsto> PStr ''general'']
   \<and> migrate_metadata (\<lambda>s. Inr (PDict [(''category'', PStr ''tech'')]))
       [''categories'' \<mapsto> PStr ''[politics'']
     = [''categories'' \<mapsto> PStr ''general'']
   \<and> migrate_metadata loads_fixture [''categories'' \<mapsto> PStr ''[\"tech\"]'']
     = [''categories'' \<mapsto> PStr ''general'']
   \<and> migrate_metadata loads_fixture [''categories'' \<mapsto> PStr ''[{\"name\":\"tech\"}]'']
     = [''categories'' \<mapsto> PStr ''general'']
   \<and> distinct (map fst legacy_collection)
   \<and> fst (migrate_categories loads_fixture legacy_collection) =
       map (\<lambda>(i, m). (i, migrate_metadata loads_fixture m)) legacy_collection"
proof -
  let ?json = "''[{\"category\":\"tech\",\"score\":0.9}]''"
  have a: "migrate_metadata loads_fixture [''categories'' \<mapsto> PStr ?json]
      = [''categories'' \<mapsto> PStr ''tech'']"
    using migrate_metadata_cases [where metadata = "[''categories'' \<mapsto> PStr ?json]"
        and s = ?json and loads = loads_fixture
        and d = "[(''category'', PStr ''tech''), (''score'', PFloat (9 / 10))]"
        and rest = "[]" and c = "PStr ''tech''"]
    by (simp add: loads_fixture_def startswith_def)
  have b: "migrate_metadata loads_fixture [''categories'' \<mapsto> PStr ''[]'']
      = [''categories'' \<mapsto> PStr ''general'']"
    using migrate_metadata_cases [where metadata = "[''categories'' \<mapsto> PStr ''[]'']"
        and s = "''[]''" and loads = loads_fixture]
    by (simp add: loads_fixture_def startswith_def)
  have c: "migrate_metadata loads_fixture [''categories'' \<mapsto> PStr ''sports,tech'']
      = [''categories'' \<mapsto> PStr ''sports'']"
    using migrate_metadata_cases [where metadata = "[''categories'' \<mapsto> PStr ''sports,tech'']"
        and s = "''sports,tech''" and loads = loads_fixture]
    by (simp add: startswith_def)
  have d: "migrate_metadata loads_fixture [''categories'' \<mapsto> PStr '''']
      = [''categories'' \<mapsto> PStr ''general'']"
    using migrate_metadata_cases [where metadata = "[''categories'' \<mapsto> PStr '''']"
        and loads = loads_fixture]
    by simp
  have e: "migrate_metadata loads_fixture [''headline'' \<mapsto> PStr ''Cup final'']
      = [''headline'' \<mapsto> PStr ''Cup final'', ''categories'' \<mapsto> PStr ''general'']"
    using migrate_metadata_cases [where metadata = "[''headline'' \<mapsto> PStr ''Cup final'']"
        and loads = loads_fixture]
    by simp
  have f: "migrate_metadata loads_fixture [''categories'' \<mapsto> PStr ''world news'']
      = [''categories'' \<mapsto> PStr ''world news'']"
    using migrate_metadata_cases [where metadata = "[''categories'' \<mapsto> PStr ''world news'']"
        and s = "''world news''" and loads = loads_fixture]
    by (simp add: startswith_def)
  have g: "migrate_metadata loads_fixture [''categories'' \<mapsto> PInt 7]
      = [''categories'' \<mapsto> PStr ''general'']"
    using migrate_metadata_cases [where metadata = "[''categories'' \<mapsto> PInt 7]"
        and v = "PInt 7" and loads = loads_fixture]
    by simp
  have h: "migrate_metadata loads_fixture
       [''headline'' \<mapsto> PStr ''Budget vote'', ''categories'' \<mapsto> PStr ''[politics'']
     = [''headline'' \<mapsto> PStr ''Budget vote'', ''categories'' \<mapsto> PStr ''general'']"
    using migrate_metadata_cases [where loads = loads_fixture and s = "''[politics''"
        and e = JSONDecodeError
        and metadata = "[''headline'' \<mapsto> PStr ''Budget vote'', ''categories'' \<mapsto> PStr ''[politics'']"]
    by (simp add: loads_fixture_def startswith_def)
  have i: "migrate_metadata (\<lambda>s. Inr (PDict [(''category'', PStr ''tech'')]))
       [''categories'' \<mapsto> PStr ''[politics'']
     = [''categories'' \<mapsto> PStr ''general'']"
    using migrate_metadata_cases [where loads = "\<lambda>s. Inr (PDict [(''category'', PStr ''tech'')])"
        and s = "''[politics''" and v = "PDict [(''category'', PStr ''tech'')]"
        and metadata = "[''categories'' \<mapsto> PStr ''[politics'']"]
    by (simp add: startswith_def)
  have j: "migrate_metadata loads_fixture [''categories'' \<mapsto> PStr ''[\"tech\"]'']
     = [''categories'' \<mapsto> PStr ''general'']"
    using migrate_metadata_cases [where loads = loads_fixture and s = "''[\"tech\"]''"
        and first = "PStr ''tech''" and rest = "[]"
        and metadata = "[''categories'' \<mapsto> PStr ''[\"tech\"]'']"]
    by (simp add: loads_fixture_def startswith_def)
  have k: "migrate_metadata loads_fixture [''categories'' \<mapsto> PStr ''[{\"name\":\"tech\"}]'']
     = [''categories'' \<mapsto> PStr ''general'']"
    using migrate_metadata_cases [where loads = loads_fixture and s = "''[{\"name\":\"tech\"}]''"
        and d = "[(''name'', PStr ''tech'')]" and rest = "[]"
        and metadata = "[''categories'' \<mapsto> PStr ''[{\"name\":\"tech\"}]'']"]
    by (simp add: loads_fixture_def startswith_def)
  have l: "distinct (map fst legacy_collection)"
    by (simp add: legacy_collection_def)
  have m: "fst (migrate_categories loads_fixture legacy_collection) =
       map (\<lambda>(i, m). (i, migrate_metadata loads_fixture m)) legacy_collection"
    using migrate_metadata_cases [where loads = loads_fixture and coll = legacy_collection] l
    by simp
  from a b c d e f g h i j k l m show ?thesis by simp
qed

subsection \<open>Running the migration again\<close>

text \<open>A record whose category is clean is a fixed point of the pass.\<close>

lemma migrate_metadata_clean:
  "clean_category (m ''categories'') \<Longrightarrow> migrate_metadata loads m = m"
  by (auto simp: clean_category_def migrate_metadata_def migrate_try_plain
      split: option.splits pyval.splits)

lemma map_fst_migrated: "map fst (map (\<lambda>(i, m). (i, f m)) c) = map fst c"
  by (induction c) auto

lemma record_categories_migrated:
  "record_categories (map (\<lambda>(i, m). (i, f m)) c) = map (\<lambda>(i, m). f m ''categories'') c"
  by (induction c) (auto simp: record_categories_def)

lemma migrate_categories_calls:
  "snd (migrate_categories loads c) =
     (if c = [] then [] else [(map fst c, map (\<lambda>(i, m). migrate_metadata loads m) c)])"
  by (auto simp: migrate_categories_def collection_get_def migrate_loop_map split_def comp_def Let_def)

text \<open>
  Claim C2: running \<open>migrate_categories\<close> twice leaves every category as a single
  run does. The routine does not achieve this. On a collection whose one record has
  the category \<open>",tech"\<close>, the first run stores the first comma segment, which is
  the empty string, and the second run turns that empty category into
  \<open>"general"\<close>: the branch for strings with a comma does not apply the repair that
  the branch for empty categories exists for.
\<close>

theorem migrate_categories_second_run_differs:
  "record_categories (fst (migrate_categories loads_fixture comma_first_collection))
     = [Some (PStr '''')]
   \<and> record_categories (fst (migrate_categories loads_fixture
         (fst (migrate_categories loads_fixture comma_first_collection))))
     = [Some (PStr ''general'')]"
proof -
  have d: "distinct (map fst comma_first_collection)"
    by (simp add: comma_first_collection_def)
  have one: "migrate_metadata loads_fixture [''categories'' \<mapsto> PStr '',tech'']
      = [''categories'' \<mapsto> PStr '''']"
    by (simp add: migrate_metadata_def migrate_try_plain [where s = "'',tech''"] startswith_def)
  have two: "migrate_metadata loads_fixture [''categories'' \<mapsto> PStr '''']
      = [''categories'' \<mapsto> PStr ''general'']"
    by (simp add: migrate_metadata_def migrate_try_plain [where s = "[]"] startswith_def)
  have run1: "fst (migrate_categories loads_fixture comma_first_collection)
      = [(''b1'', [''categories'' \<mapsto> PStr ''''])]"
    by (simp add: migrate_categories_records [OF d]) (simp add: comma_first_collection_def one)
  have run2: "fst (migrate_categories loads_fixture [(''b1'', [''categories'' \<mapsto> PStr ''''])])
      = [(''b1'', [''categories'' \<mapsto> PStr ''general''])]"
    by (simp add: migrate_categories_records two)
  show ?thesis
    by (simp add: run1 run2 record_categories_def)
qed

subsection \<open>What the migration writes back\<close>

text \<open>
  Claim C3 as stated (only changed records are written back) fails: a record whose
  category is already clean is left as it is by the pass, and its id is still part
  of the update.
\<close>

theorem migrate_categories_update_counterexample:
  "clean_category ([''categories'' \<mapsto> PStr ''tech''] ''categories'')
   \<and> migrate_metadata loads_fixture [''categories'' \<mapsto> PStr ''tech'']
       = [''categories'' \<mapsto> PStr ''tech'']
   \<and> map fst (snd (migrate_categories loads_fixture clean_collection)) = [[''c1'']]"
proof -
  have cl: "clean_category ([''categories'' \<mapsto> PStr ''tech''] ''categories'')"
    by (simp add: clean_category_def startswith_def)
  from cl migrate_metadata_clean [where m = "[''categories'' \<mapsto> PStr ''tech'']" and loads = loads_fixture]
  show ?thesis
    by (simp add: migrate_categories_calls clean_collection_def)
qed

text \<open>
  Claim C3, amended. The routine issues no update for an empty collection and
  otherwise exactly one batched update, which carries every id of the collection
  with its migrated metadata, changed or not; for a record whose category is
  already clean the metadata written is the metadata stored.
\<close>

theorem migrate_categories_update_call:
  "snd (migrate_categories loads c) =
     (if c = [] then [] else [(map fst c, map (\<lambda>(i, m). migrate_metadata loads m) c)])
   \<and> (clean_category (m ''categories'') \<longrightarrow> migrate_metadata loads m = m)"
  by (simp add: migrate_categories_calls migrate_metadata_clean)

theorem migrate_categories_update_call_witness:
  "clean_category ([''categories'' \<mapsto> PStr ''world news''] ''categories'')
   \<and> migrate_metadata loads_fixture [''categories'' \<mapsto> PStr ''world news'']
       = [''categories'' \<mapsto> PStr ''world news'']
   \<and> map fst (snd (migrate_categories loads_fixture legacy_collection))
       = [[''a1'', ''a2'', ''a3'', ''a4'', ''a5'', ''a6'', ''a7'']]
   \<and> snd (migrate_categories loads_fixture []) = []"
proof -
  have cl: "clean_category ([''categories'' \<mapsto> PStr ''world news''] ''categories'')"
    by (simp add: clean_category_def startswith_def)
  have ne: "legacy_collection \<noteq> []"
    by (simp add: legacy_collection_def)
  have ids: "map fst legacy_collection = [''a1'', ''a2'', ''a3'', ''a4'', ''a5'', ''a6'', ''a7'']"
    by (simp add: legacy_collection_def)
  from migrate_categories_update_call [of loads_fixture legacy_collection
      "[''categories'' \<mapsto> PStr ''world news'']"]
    migrate_categories_update_call [of loads_fixture "[]"] cl ne ids
  show ?thesis by simp
qed

section \<open>Whitespace and tokens\<close>

text \<open>
  A text strips to nothing exactly when all its characters are whitespace. The
  tokens of a text are found by reading whitespace and non-whitespace stretches in
  turn: two stretches of non-whitespace give at most two tokens, three separated
  ones at least three.
\<close>

lemma py_strip_empty_iff: "py_strip s = [] \<longleftrightarrow> (\<forall>c \<in> set s. py_isspace c)"
proof
  assume "py_strip s = []"
  then have a: "\<forall>c \<in> set (dropWhile py_isspace s). py_isspace c"
    by (simp add: py_strip_def)
  show "\<forall>c \<in> set s. py_isspace c"
  proof (cases "dropWhile py_isspace s")
    case Nil
    then show ?thesis by simp
  next
    case (Cons x xs)
    then have "\<not> py_isspace x" by (metis hd_dropWhile list.sel(1) list.distinct(1))
    moreover from Cons a have "py_isspace x" by simp
    ultimately show ?thesis by simp
  qed
next
  assume "\<forall>c \<in> set s. py_isspace c"
  then show "py_strip s = []"
    by (auto simp: py_strip_def dest: set_dropWhileD)
qed



lemma split_ws_only_space:
  "\<forall>c \<in> set w. py_isspace c \<Longrightarrow> split_ws w tok = (if tok = [] then [] else [tok])"
  by (induction w arbitrary: tok) simp_all








section \<open>The short-text rule of the categorizer\<close>



section \<open>The zero vector of the embedder\<close>



section \<open>Article ids\<close>






section \<open>Properties of the pipeline\<close>

text \<open>
  The categorizer always returns a verdict of the expected shape. On articles whose
  headline and description are strings, the batch loop raises nowhere and assigns
  every article its verdict; the items built by \<open>scrape_website\<close> are such
  articles.
\<close>

lemma categorize_article_total:
  "\<exists>v. fst (categorize_article d t) = Inr v"
  by (simp add: categorize_article_def split: sum.splits)

lemma classify_try_shape: "classify_try d t = Inr v \<Longrightarrow> verdict_shape v"
  by (auto simp: classify_try_def verdict_shape_def split: sum.splits)

lemma categorize_article_shape:
  "fst (categorize_article d t) = Inr v \<Longrightarrow> verdict_shape v"
  by (auto simp: categorize_article_def general_verdict_def verdict_shape_def
      dest: classify_try_shape split: if_splits sum.splits)

lemma string_fieldE: "string_field a k \<Longrightarrow> \<exists>s. a k = Some (PStr s)"
  by (auto simp: string_field_def split: option.splits pyval.splits)

lemma article_text_strings:
  "string_field a ''headline'' \<Longrightarrow> string_field a ''description'' \<Longrightarrow>
   \<exists>t. article_text d a = Inr t"
  by (auto simp: article_text_def dest!: string_fieldE)

lemma debug_headline_strings:
  "string_field a ''headline'' \<Longrightarrow> \<exists>v. debug_headline (a(''categories'' \<mapsto> c)) = Inr v"
  by (auto simp: debug_headline_def py_slice_def dest!: string_fieldE)


lemma article_texts_strings:
  "\<forall>a \<in> set arts. string_field a ''headline'' \<and> string_field a ''description'' \<Longrightarrow>
   \<exists>ts. article_texts d arts = Inr ts \<and> length ts = length arts
     \<and> (\<forall>i < length arts. article_text d (arts ! i) = Inr (ts ! i))"
proof (induction arts)
  case Nil
  then show ?case by simp
next
  case (Cons a arts)
  then obtain ts where ts: "article_texts d arts = Inr ts" "length ts = length arts"
    "\<forall>i < length arts. article_text d (arts ! i) = Inr (ts ! i)" by auto
  from Cons.prems obtain t where t: "article_text d a = Inr t"
    using article_text_strings [of a d] by auto
  have "\<forall>i < length (a # arts). article_text d ((a # arts) ! i) = Inr ((t # ts) ! i)"
    using t ts(3) by (auto simp: nth_Cons split: nat.splits)
  with t ts show ?case by simp
qed

lemma categorize_batch_strings:
  "length ts = length arts \<Longrightarrow>
   \<forall>i < length arts. string_field (arts ! i) ''headline''
      \<and> article_text d (arts ! i) = Inr (ts ! i) \<Longrightarrow>
   categorize_batch d arts ts = (map (categorized d) arts, map (categorized d) arts, None)"
proof (induction arts arbitrary: ts)
  case Nil
  then show ?case by simp
next
  case (Cons a arts)
  then obtain t ts' where ts: "ts = t # ts'" by (cases ts) auto
  from Cons.prems ts have a: "string_field a ''headline''" "article_text d a = Inr t"
    by auto
  obtain v where v: "fst (categorize_article d t) = Inr v"
    using categorize_article_total by blast
  from a v have cat: "categorized d a = a(''categories'' \<mapsto> v)"
    by (simp add: categorized_def article_verdict_def)
  obtain sh where sh: "debug_headline (a(''categories'' \<mapsto> v)) = Inr sh"
    using debug_headline_strings [OF a(1)] by blast
  have "categorize_batch d arts ts' = (map (categorized d) arts, map (categorized d) arts, None)"
  proof (rule Cons.IH)
    show "length ts' = length arts" using Cons.prems ts by simp
    show "\<forall>i<length arts. string_field (arts ! i) ''headline''
        \<and> article_text d (arts ! i) = Inr (ts' ! i)"
      using Cons.prems(2) ts by auto
  qed
  with ts v sh cat show ?case by (simp add: Let_def)
qed

lemma process_batch_strings:
  "length ts = length arts \<Longrightarrow>
   \<forall>i < length arts. string_field (arts ! i) ''headline''
      \<and> article_text d (arts ! i) = Inr (ts ! i) \<Longrightarrow>
   process_batch d arts ts = map (categorized d) arts"
  by (simp add: process_batch_def categorize_batch_strings)

lemma process_batches_strings:
  "length ts = length arts \<Longrightarrow>
   \<forall>i < length arts. string_field (arts ! i) ''headline''
      \<and> article_text d (arts ! i) = Inr (ts ! i) \<Longrightarrow>
   process_batches d arts ts = map (categorized d) arts"
proof (induction d arts ts rule: process_batches.induct)
  case (1 d articles texts)
  show ?case
  proof (cases "articles = []")
    case True
    then show ?thesis by (subst process_batches.simps) simp
  next
    case False
    have hd4: "process_batch d (take 4 articles) (take 4 texts)
        = map (categorized d) (take 4 articles)"
      using "1.prems" by (intro process_batch_strings) auto
    have tl4: "process_batches d (drop 4 articles) (drop 4 texts)
        = map (categorized d) (drop 4 articles)"
      using "1.prems" False by (intro "1.IH") auto
    have "process_batches d articles texts
        = map (categorized d) (take 4 articles) @ map (categorized d) (drop 4 articles)"
      using False hd4 tl4 by (subst process_batches.simps) simp
    then show ?thesis by (simp flip: map_append)
  qed
qed

lemma process_articles_batch_strings:
  assumes "\<forall>a \<in> set arts. string_field a ''headline'' \<and> string_field a ''description''"
  shows "process_articles_batch d arts = Inr (map (categorized d) arts)"
proof (cases "arts = []")
  case True
  then show ?thesis by (simp add: process_articles_batch_def)
next
  case False
  from article_texts_strings [OF assms, of d] obtain ts where
    ts: "article_texts d arts = Inr ts" "length ts = length arts"
      "\<forall>i < length arts. article_text d (arts ! i) = Inr (ts ! i)" by blast
  have "process_batches d arts ts = map (categorized d) arts"
    using ts assms by (intro process_batches_strings) auto
  with False ts show ?thesis by (simp add: process_articles_batch_def)
qed

lemma new_item_scraped: "scraped_item (new_item d url headline description link img)"
  by (simp add: new_item_def scraped_item_def item_fields_def string_field_def)

lemma scrape_container_item:
  "scrape_container d url selectors container = Inr (Some item) \<Longrightarrow> scraped_item item"
  unfolding scrape_container_def Let_def
  by (auto simp: new_item_scraped split: option.splits sum.splits if_splits)

lemma scrape_containers_items:
  "\<forall>a \<in> set collected. scraped_item a \<Longrightarrow>
   \<forall>a \<in> set (scrape_containers d url selectors containers collected). scraped_item a"
proof (induction containers arbitrary: collected)
  case Nil
  then show ?case by simp
next
  case (Cons c cs)
  show ?case
  proof (cases "scrape_container d url selectors c")
    case (Inl e)
    with Cons show ?thesis by simp
  next
    case (Inr r)
    show ?thesis
    proof (cases r)
      case None
      with Inr Cons show ?thesis by simp
    next
      case (Some item)
      with Inr have "scraped_item item" by (simp add: scrape_container_item)
      with Cons.prems have "\<forall>a \<in> set (collected @ [item]). scraped_item a" by simp
      from Cons.IH [OF this] Inr Some show ?thesis by simp
    qed
  qed
qed

lemma scrape_website_items:
  "\<forall>a \<in> set (scrape_website d url selectors limit). scraped_item a"
proof -
  have "\<forall>a \<in> set (scrape_containers d url selectors cs []). scraped_item a" for cs
    by (rule scrape_containers_items) simp
  then show ?thesis
    unfolding scrape_website_def by (auto split: sum.splits option.splits)
qed

lemma scraped_item_strings:
  "scraped_item a \<Longrightarrow> string_field a ''headline'' \<and> string_field a ''description''"
  by (simp add: scraped_item_def item_fields_def)

lemma categorized_shape:
  assumes "scraped_item a"
  shows "article_shape (categorized d a)"
proof -
  from assms obtain t where t: "article_text d a = Inr t"
    using article_text_strings [of a d] by (auto simp: scraped_item_def item_fields_def)
  obtain v where v: "fst (categorize_article d t) = Inr v"
    using categorize_article_total by blast
  then have "verdict_shape v" by (rule categorize_article_shape)
  with t v assms show ?thesis
    by (simp add: article_shape_def categorized_def article_verdict_def scraped_item_def
        item_fields_def string_field_def)
qed

lemma process_scraped:
  assumes "\<forall>a \<in> set arts. scraped_item a"
  shows "process_articles_batch d arts = Inr (map (categorized d) arts)"
  using assms by (intro process_articles_batch_strings) (simp add: scraped_item_strings)

lemma site_processed:
  "process_articles_batch d (scrape_website d url selectors limit)
     = Inr (map (categorized d) (scrape_website d url selectors limit))"
  by (rule process_scraped) (rule scrape_website_items)

lemma scrape_site_outcome:
  "scrape_site d m config (all_articles, store) =
     (case site_outcome d m config store of
        None \<Rightarrow> (all_articles, store)
      | Some (processed, store') \<Rightarrow> (all_articles @ processed, store'))"
proof -
  let ?items = "scrape_website d (site_url config) (site_selectors config)
      (Some (min (site_limit config) m))"
  show ?thesis
  proof (cases "?items = []")
    case True
    then show ?thesis by (simp add: scrape_site_def site_outcome_def)
  next
    case False
    show ?thesis
    proof (cases "process_articles_batch d ?items")
      case (Inl e)
      with False show ?thesis by (simp add: scrape_site_def site_outcome_def)
    next
      case (Inr processed)
      with False show ?thesis
        by (cases "store_in_chromadb d processed store")
          (simp_all add: scrape_site_def site_outcome_def)
    qed
  qed
qed

text \<open>The run appends, source by source, the articles of the sources that
  succeeded; all of them have the shape of a processed article.\<close>

lemma scrape_sites_succeeded:
  "scrape_sites d m sites (all_articles, store)
     = (all_articles @ succeeded_articles d m sites store, snd (scrape_sites d m sites ([], store)))"
proof (induction sites arbitrary: all_articles store)
  case Nil
  show ?case by simp
next
  case (Cons site sites)
  obtain site_name config where site: "site = (site_name, config)" by (cases site)
  show ?case
  proof (cases "site_outcome d m config store")
    case None
    with site Cons.IH [of all_articles store] show ?thesis
      by (simp add: scrape_site_outcome)
  next
    case (Some r)
    obtain processed store' where r: "r = (processed, store')" by (cases r)
    from Cons.IH [of "all_articles @ processed" store'] Cons.IH [of processed store']
    show ?thesis using site Some r by (simp add: scrape_site_outcome)
  qed
qed

lemma site_outcome_shape:
  assumes "site_outcome d m config store = Some (processed, store')"
  shows "\<forall>a \<in> set processed. article_shape a"
proof -
  let ?items = "scrape_website d (site_url config) (site_selectors config)
      (Some (min (site_limit config) m))"
  have "process_articles_batch d ?items = Inr (map (categorized d) ?items)"
    by (rule site_processed)
  with assms have "processed = map (categorized d) ?items"
    by (cases "?items = []"; cases "store_in_chromadb d (map (categorized d) ?items) store")
      (simp_all add: site_outcome_def)
  moreover have "\<forall>a \<in> set ?items. scraped_item a" by (rule scrape_website_items)
  ultimately show ?thesis by (simp add: categorized_shape)
qed

lemma succeeded_articles_shape:
  "\<forall>a \<in> set (succeeded_articles d m sites store). article_shape a"
proof (induction sites arbitrary: store)
  case Nil
  show ?case by simp
next
  case (Cons site sites)
  obtain site_name config where site: "site = (site_name, config)" by (cases site)
  show ?case
  proof (cases "site_outcome d m config store")
    case None
    with site Cons.IH show ?thesis by simp
  next
    case (Some r)
    obtain processed store' where r: "r = (processed, store')" by (cases r)
    from Some r site_outcome_shape [of d m config store processed store']
    have "\<forall>a \<in> set processed. article_shape a" by simp
    with site Some r Cons.IH [of store'] show ?thesis by auto
  qed
qed

lemma scrape_all_websites_succeeded:
  "fst (scrape_all_websites d m store) = succeeded_articles d m (websites d) store"
  unfolding scrape_all_websites_def
  by (subst scrape_sites_succeeded) (simp only: fst_conv append_Nil)

section \<open>Failures of the classifier\<close>

text \<open>What \<open>categorize_article\<close> returns when the classifier raises, returns no
  label or score, or returns its ranking.\<close>

lemma categorize_article_failed:
  "categorizer d t categories = Inl e \<Longrightarrow>
   fst (categorize_article d t) = Inr general_verdict"
  by (simp add: categorize_article_def classify_try_def)

lemma categorize_article_malformed:
  "categorizer d t categories = Inr r \<Longrightarrow> labels r = [] \<or> scores r = [] \<Longrightarrow>
   fst (categorize_article d t) = Inr general_verdict"
  by (cases "labels r") (auto simp: categorize_article_def classify_try_def)

lemma categorize_article_top:
  "categorizer d t categories = Inr r \<Longrightarrow> labels r = l # ls \<Longrightarrow> scores r = s # ss \<Longrightarrow>
   py_strip t \<noteq> [] \<Longrightarrow> 3 \<le> length (py_split t) \<Longrightarrow>
   fst (categorize_article d t)
     = Inr (PDict [(''category'', PStr l), (''confidence'', PFloat (round2 d s))])"
  by (simp add: categorize_article_def classify_try_def)

lemma tokens_not_blank: "3 \<le> length (py_split t) \<Longrightarrow> py_strip t \<noteq> []"
proof
  assume a: "3 \<le> length (py_split t)" and "py_strip t = []"
  then have "\<forall>c \<in> set t. py_isspace c" by (simp add: py_strip_empty_iff)
  then have "py_split t = []" by (simp add: py_split_def split_ws_only_space)
  with a show False by simp
qed

lemma categorized_failed:
  assumes "a ''headline'' = Some (PStr h)" "a ''description'' = Some (PStr de)"
    "categorizer d (h @ '' '' @ de) categories = Inl e"
  shows "categorized d a = a(''categories'' \<mapsto> general_verdict)"
  using assms
  by (simp add: categorized_def article_verdict_def article_text_def py_format_def
      categorize_article_failed)

text \<open>
  Claim C7. \<open>categorize_article\<close> returns a verdict for every text and never
  raises. When the classifier raises on the text, or returns an empty ranking, the
  verdict is \<open>{"category": "general", "confidence": 1.0}\<close>; on a text of three or
  more tokens the verdict is otherwise the top label with its rounded score. A batch
  of articles with string headlines and descriptions is never aborted: every article
  comes back, in order, with a verdict under \<open>categories\<close>, and an article on whose
  text the classifier raises comes back with the fallback verdict.
\<close>

theorem categorize_article_never_raises:
  "(\<exists>v. fst (categorize_article d text_in) = Inr v)
   \<and> (categorizer d text_in categories = Inl e
      \<longrightarrow> fst (categorize_article d text_in)
          = Inr (PDict [(''category'', PStr ''general''), (''confidence'', PFloat 1)]))
   \<and> (categorizer d text_in categories = Inr r \<and> (labels r = [] \<or> scores r = [])
      \<longrightarrow> fst (categorize_article d text_in)
          = Inr (PDict [(''category'', PStr ''general''), (''confidence'', PFloat 1)]))
   \<and> (categorizer d text_in categories = Inr r \<and> labels r = l # ls \<and> scores r = s # ss
        \<and> 3 \<le> length (py_split text_in)
      \<longrightarrow> categorize_article d text_in
          = (Inr (PDict [(''category'', PStr l), (''confidence'', PFloat (round2 d s))]),
             [text_in]))
   \<and> ((\<forall>a \<in> set arts. (\<exists>h. a ''headline'' = Some (PStr h))
                         \<and> (\<exists>de. a ''description'' = Some (PStr de)))
      \<longrightarrow> (\<exists>out. process_articles_batch d arts = Inr out \<and> length out = length arts
            \<and> (\<forall>i < length arts. \<exists>v. out ! i = (arts ! i)(''categories'' \<mapsto> v))
            \<and> (\<forall>i < length arts. \<forall>h de e'.
                  (arts ! i) ''headline'' = Some (PStr h)
                  \<and> (arts ! i) ''description'' = Some (PStr de)
                  \<and> categorizer d (h @ '' '' @ de) categories = Inl e'
                  \<longrightarrow> out ! i =
                      (arts ! i)(''categories'' \<mapsto>
                         PDict [(''category'', PStr ''general''), (''confidence'', PFloat 1)]))))"
proof (intro conjI impI)
  show "\<exists>v. fst (categorize_article d text_in) = Inr v"
    by (rule categorize_article_total)
next
  assume "categorizer d text_in categories = Inl e"
  then show "fst (categorize_article d text_in)
      = Inr (PDict [(''category'', PStr ''general''), (''confidence'', PFloat 1)])"
    by (simp add: categorize_article_failed general_verdict_def)
next
  assume "categorizer d text_in categories = Inr r \<and> (labels r = [] \<or> scores r = [])"
  then show "fst (categorize_article d text_in)
      = Inr (PDict [(''category'', PStr ''general''), (''confidence'', PFloat 1)])"
    using categorize_article_malformed [of d text_in r] by (simp add: general_verdict_def)
next
  assume a: "categorizer d text_in categories = Inr r \<and> labels r = l # ls \<and> scores r = s # ss
        \<and> 3 \<le> length (py_split text_in)"
  then have nb: "py_strip text_in \<noteq> []" by (simp add: tokens_not_blank)
  with a show "categorize_article d text_in
      = (Inr (PDict [(''category'', PStr l), (''confidence'', PFloat (round2 d s))]), [text_in])"
    by (simp add: categorize_article_def classify_try_def)
next
  assume a: "\<forall>a \<in> set arts. (\<exists>h. a ''headline'' = Some (PStr h))
                         \<and> (\<exists>de. a ''description'' = Some (PStr de))"
  then have "\<forall>a \<in> set arts. string_field a ''headline'' \<and> string_field a ''description''"
    by (auto simp: string_field_def)
  then have out: "process_articles_batch d arts = Inr (map (categorized d) arts)"
    by (rule process_articles_batch_strings)
  have "\<forall>i < length arts. \<exists>v. map (categorized d) arts ! i = (arts ! i)(''categories'' \<mapsto> v)"
    by (auto simp: categorized_def)
  moreover have "\<forall>i < length arts. \<forall>h de e'.
                  (arts ! i) ''headline'' = Some (PStr h)
                  \<and> (arts ! i) ''description'' = Some (PStr de)
                  \<and> categorizer d (h @ '' '' @ de) categories = Inl e'
                  \<longrightarrow> map (categorized d) arts ! i =
                      (arts ! i)(''categories'' \<mapsto>
                         PDict [(''category'', PStr ''general''), (''confidence'', PFloat 1)])"
    using categorized_failed [of _ _ _ d] by (auto simp: general_verdict_def)
  ultimately show "\<exists>out. process_articles_batch d arts = Inr out \<and> length out = length arts
            \<and> (\<forall>i < length arts. \<exists>v. out ! i = (arts ! i)(''categories'' \<mapsto> v))
            \<and> (\<forall>i < length arts. \<forall>h de e'.
                  (arts ! i) ''headline'' = Some (PStr h)
                  \<and> (arts ! i) ''description'' = Some (PStr de)
                  \<and> categorizer d (h @ '' '' @ de) categories = Inl e'
                  \<longrightarrow> out ! i =
                      (arts ! i)(''categories'' \<mapsto>
                         PDict [(''category'', PStr ''general''), (''confidence'', PFloat 1)]))"
    using out by (intro exI [of _ "map (categorized d) arts"]) simp
qed

end
